theory Spec2Isabelle
  imports Main
begin

section \<open>Data model\<close>

text \<open>
  The repository holds two upload handlers: \<^verbatim>\<open>server/app/routers/uploads.py\<close>, whose sessions
  are rows of a relational store, and \<^verbatim>\<open>server/app/routers/tus_upload.py\<close>, whose sessions are
  a data file and a metadata file per upload id. Both are embedded here, function by function.

  Byte strings are \<open>char list\<close> (a \<open>char\<close> is one byte). Python integers are \<open>int\<close>.
  \<open>hashlib.sha256(b).hexdigest()\<close> is a library function: every definition that calls it
  takes it as the parameter \<open>H\<close>.
\<close>

type_synonym bytes = string
type_synonym uuid = nat
type_synonym user_id = string

datatype UploadStatus = PENDING | RECEIVING | COMPLETE | FAILED

text \<open>
  Of the members of \<open>FileType\<close> the handlers name \<open>VIDEO_MP4\<close> only;
  \<open>OTHER_FILE_TYPE\<close> stands for the others.
\<close>

datatype FileType = VIDEO_MP4 | OTHER_FILE_TYPE

text \<open>
  The failures of the handlers. Each is an \<open>HTTPException\<close> of the source, named after the
  error of the protocol it signals; \<open>error_code\<close> gives the HTTP status the source raises.
  \<^item> \<open>NotFound\<close>: 404, "Upload not found" / "Trip or segment not found";
  \<^item> \<open>AlreadyTerminal\<close>: 409, "Upload already complete";
  \<^item> \<open>OffsetConflict\<close>: 409, "Offset mismatch" / "Upload offset mismatch. ...";
  \<^item> \<open>ChecksumMismatch\<close>: 422, "Checksum mismatch";
  \<^item> \<open>TooLarge\<close>: 413, "File too large";
  \<^item> \<open>UnsupportedMediaType\<close>: 415, "Content-Type must be application/offset+octet-stream";
  \<^item> \<open>StorageFailure\<close>: an exception of the storage layer;
  \<^item> \<open>ServerError\<close>: any other uncaught Python exception (\<open>AttributeError\<close> on
    \<open>upload.trip\<close> being \<open>None\<close>, an integrity error of the store).
\<close>

datatype http_error =
    NotFound | AlreadyTerminal | OffsetConflict | ChecksumMismatch
  | TooLarge | UnsupportedMediaType | StorageFailure | ServerError

fun error_code :: "http_error \<Rightarrow> nat" where
  "error_code NotFound = 404"
| "error_code AlreadyTerminal = 409"
| "error_code OffsetConflict = 409"
| "error_code ChecksumMismatch = 422"
| "error_code TooLarge = 413"
| "error_code UnsupportedMediaType = 415"
| "error_code StorageFailure = 500"
| "error_code ServerError = 500"

text \<open>
  A response: its status code and the headers that carry protocol state, with their integer
  values before \<open>str\<close>. The constant headers (\<open>Tus-Resumable\<close>, CORS) are left out.
\<close>

record response =
  code :: nat
  hdr_upload_offset :: "int option"
  hdr_upload_length :: "int option"
  hdr_location :: "string option"

definition offset_response :: "nat \<Rightarrow> int \<Rightarrow> response" where
  "offset_response c off =
     \<lparr>code = c, hdr_upload_offset = Some off, hdr_upload_length = None, hdr_location = None\<rparr>"

text \<open>
  Paths, by the way the handlers build them with \<open>pathlib\<close> (POSIX flavour). A path text is
  read as a root (\<open>"/"\<close>, \<open>"//"\<close> for exactly two leading slashes, or none) and its parts:
  the components between slashes, without the empty ones and the \<open>"."\<close> ones. The first
  three constructors are paths below the storage directory. Joining a directory with an
  absolute text gives the path of that text alone (\<open>AbsolutePath\<close>); such a path is kept apart
  from the first three also where it names a place below the storage directory.
\<close>

datatype path =
    UploadPath uuid
      \<comment> \<open>\<open>get_upload_path(str(upload.id))\<close>\<close>
  | DirectPath uuid
      \<comment> \<open>\<open>storage_dir / "uploads" / f"{upload_id}.upload"\<close>\<close>
  | SegmentPath uuid "string list"
      \<comment> \<open>\<open>storage_dir / "segments" / str(segment_id) / filename\<close>, \<open>filename\<close> relative\<close>
  | AbsolutePath string "string list"
      \<comment> \<open>\<open>dest_dir / filename\<close>, \<open>filename\<close> absolute: its root and its parts\<close>

definition path_root :: "string \<Rightarrow> string" where
  "path_root f =
     (let n = length (takeWhile (\<lambda>c. c = CHR ''/'') f)
      in if n = 0 then [] else if n = 2 then ''//'' else ''/'')"

fun split_slash :: "string \<Rightarrow> string \<Rightarrow> string list" where
  "split_slash cur [] = [cur]"
| "split_slash cur (c # cs) =
     (if c = CHR ''/'' then cur # split_slash [] cs else split_slash (cur @ [c]) cs)"

definition path_parts :: "string \<Rightarrow> string list" where
  "path_parts f = filter (\<lambda>p. p \<noteq> [] \<and> p \<noteq> ''.'') (split_slash [] f)"

definition is_absolute :: "string \<Rightarrow> bool" where
  "is_absolute f = (path_root f \<noteq> [])"

text \<open>
  \<open>final_path = dest_dir / upload.filename\<close> with
  \<open>dest_dir = settings.storage_dir / "segments" / str(upload.segment_id)\<close> (lines 97 to 99 and
  254 to 256).
\<close>

definition dest_file :: "uuid \<Rightarrow> string \<Rightarrow> path" where
  "dest_file seg_id fname =
     (if is_absolute fname then AbsolutePath (path_root fname) (path_parts fname)
      else SegmentPath seg_id (path_parts fname))"

text \<open>
  \<open>final_path.relative_to(settings.storage_dir)\<close> (lines 110 and 269): \<open>None\<close> is the
  \<open>ValueError\<close> that \<open>pathlib\<close> raises when the path does not start with the directory. A
  path built below the storage directory always does; an absolute one does when the directory
  is absolute with the same root and its parts begin the parts of the path. The result stands
  for the relative path that the source stores as text.
\<close>

definition relative_to :: "path \<Rightarrow> string \<Rightarrow> path option" where
  "relative_to p dir =
     (case p of
        AbsolutePath r ps \<Rightarrow>
          if path_root dir \<noteq> [] \<and> path_root dir = r \<and>
             take (length (path_parts dir)) ps = path_parts dir
          then Some p else None
      | _ \<Rightarrow> Some p)"

text \<open>
  Modelled from the spec: \<^verbatim>\<open>server/app/models.py\<close> is not under src/. The records below
  hold the attributes the handlers read and write; the primary key \<open>id\<close> of a row is its key
  in the table. \<open>Trip\<close>: the owner of a trip.
\<close>

record Trip =
  trip_user_id :: user_id

text \<open>
  Modelled from the spec: \<open>Segment\<close> of \<^verbatim>\<open>server/app/models.py\<close>, not under src/: its trip,
  and the size and hash that finalization writes for a video.
\<close>

record Segment =
  seg_trip_id :: uuid
  file_size_bytes :: "int option"
  seg_sha256 :: "string option"

text \<open>
  Modelled from the spec: \<open>UploadSession\<close> of \<^verbatim>\<open>server/app/models.py\<close>, not under src/. The
  fields are the ones the handlers name; a new row has \<open>offset\<close> 0 (spec 3, \<open>received_offset\<close>:
  "starts at 0") and \<open>sha256\<close> is optional (spec 3, \<open>expected_sha256\<close>: "optional hash").
\<close>

record UploadSession =
  trip_id :: uuid
  segment_id :: uuid
  filename :: string
  file_type :: FileType
  sha256 :: "string option"
  upload_length :: int
  offset :: int
  status :: UploadStatus
  updated_at :: nat

text \<open>
  Modelled from the spec: \<open>StoredFile\<close> of \<^verbatim>\<open>server/app/models.py\<close>, not under src/, with
  the fields that \<open>patch_upload\<close> sets (spec 3, StoredArtifact: "final storage location,
  content hash, byte size").
\<close>

record StoredFile =
  sf_segment_id :: uuid
  sf_type :: FileType
  storage_uri :: path
  sf_sha256 :: string
  sf_bytes :: int

text \<open>
  The state of the server of \<^verbatim>\<open>uploads.py\<close>: the tables and the files on disk, and
  with them the value of \<open>settings.storage_dir\<close> (\<^verbatim>\<open>server/app/config.py\<close> is not under
  src/), which no handler changes.
\<close>

record server =
  storage_dir :: string
  trips :: "uuid \<rightharpoonup> Trip"
  segments :: "uuid \<rightharpoonup> Segment"
  upload_sessions :: "uuid \<rightharpoonup> UploadSession"
  stored_files :: "StoredFile list"
  files :: "path \<rightharpoonup> bytes"

section \<open>The storage service\<close>

text \<open>
  \<^verbatim>\<open>server/app/services/storage.py\<close>, from which \<^verbatim>\<open>uploads.py\<close> imports
  \<open>get_upload_path\<close>, \<open>write_chunk\<close> and \<open>finalize_upload\<close>, is not under src/. The three
  functions follow the contracts of the spec.
\<close>

text \<open>
  Modelled from the spec: \<open>get_upload_path\<close> is not under src/. Spec 6: "one backing
  partial-artifact object per non-terminal session, keyed by session id".
\<close>

definition get_upload_path :: "uuid \<Rightarrow> path" where
  "get_upload_path upload_id = UploadPath upload_id"

text \<open>
  Modelled from the spec: the bytes of a backing artifact as the writer observes them (spec
  4.2, "the writer's current observed length of the backing artifact"); the writer is not
  under src/. An artifact that does not exist yet has no bytes.
\<close>

definition observed :: "(path \<rightharpoonup> bytes) \<Rightarrow> path \<Rightarrow> bytes" where
  "observed fs p = (case fs p of None \<Rightarrow> [] | Some b \<Rightarrow> b)"

text \<open>
  Modelled from the spec: \<open>write_chunk\<close> is not under src/. Chunk Writer (spec 4.2):
  "Precondition: offset equals the writer's current observed length of the backing artifact
  for session_id; violation signals an OffsetConflict error without writing anything (no
  partial write on a rejected call). On success, bytes are appended durably".
\<close>

definition write_chunk ::
  "(path \<rightharpoonup> bytes) \<Rightarrow> path \<Rightarrow> bytes \<Rightarrow> int \<Rightarrow> http_error + (path \<rightharpoonup> bytes)" where
  "write_chunk fs p body off =
     (if off \<noteq> int (length (observed fs p)) then Inl OffsetConflict
      else Inr (fs(p \<mapsto> observed fs p @ body)))"

text \<open>
  Modelled from the spec: \<open>finalize_upload\<close> is not under src/. Finalizer (spec 2): "given a
  completed temporary artifact, computes its content hash, moves it atomically to its
  permanent location, and reports size/hash." The caller reads the result as
  \<open>computed_sha, size\<close>. A temporary artifact that does not exist is a storage failure.
\<close>

definition finalize_upload ::
  "(bytes \<Rightarrow> string) \<Rightarrow> (path \<rightharpoonup> bytes) \<Rightarrow> path \<Rightarrow> path
     \<Rightarrow> http_error + ((string \<times> int) \<times> (path \<rightharpoonup> bytes))" where
  "finalize_upload H fs p final_path =
     (case fs p of
        None \<Rightarrow> Inl StorageFailure
      | Some content \<Rightarrow>
          Inr ((H content, int (length content)), (fs(p := None))(final_path \<mapsto> content)))"

section \<open>uploads.py\<close>

text \<open>
  The fields of the request body that \<open>create_upload\<close> reads (\<open>UploadCreateRequest\<close>;
  \<^verbatim>\<open>server/app/schemas.py\<close> is not under src/).
\<close>

record UploadCreateRequest =
  req_trip_id :: uuid
  req_segment_id :: uuid
  req_filename :: string
  req_file_type :: FileType
  req_sha256 :: "string option"
  req_upload_length :: int

text \<open>
  \<open>create_upload\<close>. The id of the new row is generated by the store; it is the parameter
  \<open>new_id\<close>, and inserting a key that exists is an integrity error. The result is the
  \<open>UploadRead\<close> of the source: the id and the columns of the row.
\<close>

definition create_upload ::
  "nat \<Rightarrow> uuid \<Rightarrow> server \<Rightarrow> UploadCreateRequest \<Rightarrow> user_id
     \<Rightarrow> (http_error + uuid \<times> UploadSession) \<times> server" where
  "create_upload now new_id s payload current_user =
     (case (trips s (req_trip_id payload), segments s (req_segment_id payload)) of
        (Some trip, Some segment) \<Rightarrow>
          if seg_trip_id segment \<noteq> req_trip_id payload \<or> trip_user_id trip \<noteq> current_user
          then (Inl NotFound, s)
          else
            let upload = \<lparr>trip_id = req_trip_id payload, segment_id = req_segment_id payload,
                          filename = req_filename payload, file_type = req_file_type payload,
                          sha256 = req_sha256 payload, upload_length = req_upload_length payload,
                          offset = 0, status = PENDING, updated_at = now\<rparr>
            in if new_id \<in> dom (upload_sessions s) then (Inl ServerError, s)
               else (Inr (new_id, upload),
                     s\<lparr>upload_sessions := (upload_sessions s)(new_id \<mapsto> upload)\<rparr>)
      | _ \<Rightarrow> (Inl NotFound, s))"

text \<open>\<open>upload.trip.user_id\<close>: the trip of the row, through its foreign key.\<close>

definition upload_owner :: "server \<Rightarrow> UploadSession \<Rightarrow> user_id option" where
  "upload_owner s upload = map_option trip_user_id (trips s (trip_id upload))"

definition head_upload :: "server \<Rightarrow> uuid \<Rightarrow> user_id \<Rightarrow> http_error + response" where
  "head_upload s upload_id current_user =
     (case upload_sessions s upload_id of
        None \<Rightarrow> Inl NotFound
      | Some upload \<Rightarrow>
          (case upload_owner s upload of
             None \<Rightarrow> Inl ServerError
           | Some owner \<Rightarrow>
               if owner \<noteq> current_user then Inl NotFound
               else Inr \<lparr>code = 204, hdr_upload_offset = Some (offset upload),
                         hdr_upload_length = Some (upload_length upload),
                         hdr_location = None\<rparr>))"

text \<open>
  The completion branch of \<open>patch_upload\<close> (lines 96 to 123), entered after the row with the
  new offset has been committed: \<open>s\<close> is the state after that commit. When
  \<open>relative_to\<close> raises (line 110) the file has been moved already and nothing more is
  committed: the session keeps the status \<open>RECEIVING\<close> and no \<open>StoredFile\<close> is added.
\<close>

definition complete_upload ::
  "(bytes \<Rightarrow> string) \<Rightarrow> server \<Rightarrow> uuid \<Rightarrow> UploadSession \<Rightarrow> path
     \<Rightarrow> (http_error + response) \<times> server" where
  "complete_upload H s upload_id upload p =
     (let final_path = dest_file (segment_id upload) (filename upload) in
      case finalize_upload H (files s) p final_path of
        Inl e \<Rightarrow> (Inl e, s)
      | Inr ((computed_sha, fsize), fs) \<Rightarrow>
          if Some computed_sha \<noteq> sha256 upload then
            (Inl ChecksumMismatch,
             s\<lparr>files := fs(final_path := None),
               upload_sessions := (upload_sessions s)(upload_id \<mapsto> upload\<lparr>status := FAILED\<rparr>)\<rparr>)
          else
            case relative_to final_path (storage_dir s) of
              None \<Rightarrow> (Inl ServerError, s\<lparr>files := fs\<rparr>)
            | Some uri \<Rightarrow>
                let stored_file = \<lparr>sf_segment_id = segment_id upload, sf_type = file_type upload,
                                   storage_uri = uri, sf_sha256 = computed_sha,
                                   sf_bytes = fsize\<rparr>;
                    segs = (case segments s (segment_id upload) of
                              None \<Rightarrow> segments s
                            | Some segment \<Rightarrow>
                                (segments s)(segment_id upload \<mapsto>
                                   (if file_type upload = VIDEO_MP4
                                    then segment\<lparr>file_size_bytes := Some fsize,
                                                 seg_sha256 := Some computed_sha\<rparr>
                                    else segment)))
                in (Inr (offset_response 204 (offset upload)),
                    s\<lparr>files := fs, stored_files := stored_files s @ [stored_file],
                      segments := segs,
                      upload_sessions :=
                        (upload_sessions s)(upload_id \<mapsto> upload\<lparr>status := COMPLETE\<rparr>)\<rparr>))"

definition patch_upload ::
  "(bytes \<Rightarrow> string) \<Rightarrow> nat \<Rightarrow> server \<Rightarrow> uuid \<Rightarrow> user_id \<Rightarrow> int \<Rightarrow> bytes
     \<Rightarrow> (http_error + response) \<times> server" where
  "patch_upload H now s upload_id current_user upload_offset body =
     (case upload_sessions s upload_id of
        None \<Rightarrow> (Inl NotFound, s)
      | Some upload \<Rightarrow>
          (case upload_owner s upload of
             None \<Rightarrow> (Inl ServerError, s)
           | Some owner \<Rightarrow>
               if owner \<noteq> current_user then (Inl NotFound, s)
               else if status upload = COMPLETE then (Inl AlreadyTerminal, s)
               else if offset upload \<noteq> upload_offset then (Inl OffsetConflict, s)
               else if body = [] then (Inr (offset_response 204 (offset upload)), s)
               else
                 let p = get_upload_path upload_id in
                 case write_chunk (files s) p body (offset upload) of
                   Inl e \<Rightarrow> (Inl e, s)
                 | Inr fs \<Rightarrow>
                     let upload1 = upload\<lparr>offset := offset upload + int (length body),
                                          status := RECEIVING, updated_at := now\<rparr>;
                         s1 = s\<lparr>files := fs,
                                upload_sessions := (upload_sessions s)(upload_id \<mapsto> upload1)\<rparr>
                     in if offset upload1 \<ge> upload_length upload1
                        then complete_upload H s1 upload_id upload1 p
                        else (Inr (offset_response 204 (offset upload1)), s1)))"

text \<open>
  \<open>direct_put_upload\<close>: the whole body in one request. The stream is written to a fresh
  temporary file (mode \<open>"wb"\<close>), which the \<open>finally\<close> block removes on every path, also
  when \<open>relative_to\<close> raises (line 269). A Python string is true when it is not empty.
\<close>

fun write_stream :: "bytes \<Rightarrow> bytes list \<Rightarrow> bytes" where
  "write_stream out [] = out"
| "write_stream out (chunk # chunks) = write_stream (out @ chunk) chunks"

definition truthy :: "string option \<Rightarrow> bool" where
  "truthy x = (case x of None \<Rightarrow> False | Some v \<Rightarrow> v \<noteq> [])"

definition direct_put_upload ::
  "(bytes \<Rightarrow> string) \<Rightarrow> server \<Rightarrow> uuid \<Rightarrow> user_id \<Rightarrow> bytes list
     \<Rightarrow> (http_error + string \<times> int) \<times> server" where
  "direct_put_upload H s upload_id current_user chunks =
     (case upload_sessions s upload_id of
        None \<Rightarrow> (Inl NotFound, s)
      | Some upload \<Rightarrow>
          (case upload_owner s upload of
             None \<Rightarrow> (Inl ServerError, s)
           | Some owner \<Rightarrow>
               if owner \<noteq> current_user then (Inl NotFound, s)
               else
                 let tmp_path = DirectPath upload_id;
                     s1 = s\<lparr>files := (files s)(tmp_path \<mapsto> write_stream [] chunks)\<rparr>;
                     final_path = dest_file (segment_id upload) (filename upload)
                 in case finalize_upload H (files s1) tmp_path final_path of
                      Inl e \<Rightarrow> (Inl e, s1\<lparr>files := (files s1)(tmp_path := None)\<rparr>)
                    | Inr ((computed_sha, fsize), fs) \<Rightarrow>
                        if truthy (sha256 upload) \<and> Some computed_sha \<noteq> sha256 upload then
                          (Inl ChecksumMismatch,
                           s1\<lparr>files := fs(final_path := None, tmp_path := None),
                              upload_sessions :=
                                (upload_sessions s1)(upload_id \<mapsto> upload\<lparr>status := FAILED\<rparr>)\<rparr>)
                        else
                          case relative_to final_path (storage_dir s1) of
                            None \<Rightarrow> (Inl ServerError, s1\<lparr>files := fs(tmp_path := None)\<rparr>)
                          | Some uri \<Rightarrow>
                              let stored_file =
                                    \<lparr>sf_segment_id = segment_id upload,
                                     sf_type = file_type upload,
                                     storage_uri = uri, sf_sha256 = computed_sha,
                                     sf_bytes = fsize\<rparr>;
                                  segs = (case segments s1 (segment_id upload) of
                                            None \<Rightarrow> segments s1
                                          | Some segment \<Rightarrow>
                                              (segments s1)(segment_id upload \<mapsto>
                                                 (if file_type upload = VIDEO_MP4
                                                  then segment\<lparr>file_size_bytes := Some fsize,
                                                               seg_sha256 := Some computed_sha\<rparr>
                                                  else segment)))
                              in (Inr (computed_sha, fsize),
                                  s1\<lparr>files := fs(tmp_path := None),
                                     stored_files := stored_files s1 @ [stored_file],
                                     segments := segs,
                                     upload_sessions :=
                                       (upload_sessions s1)
                                         (upload_id \<mapsto> upload\<lparr>status := COMPLETE\<rparr>)\<rparr>)))"


section \<open>tus_upload.py\<close>

definition MAX_FILE_SIZE :: int where
  "MAX_FILE_SIZE = 1024 * 1024 * 1024"

text \<open>
  The storage of the TUS handler: the data file \<open>uploads/<id>\<close> and the metadata file
  \<open>uploads/<id>.metadata\<close> of each upload id. A metadata file is written by
  \<open>tus_create_upload\<close> as the decimal length on the first line, then the metadata string,
  and read back with \<open>int(f.readline().strip())\<close>; the state holds it as the pair.
  \<open>tus_files st i\<close> is the content of \<open>uploads/i\<close> and \<open>tus_metadata st i\<close> what
  \<open>uploads/i.metadata\<close> holds, each read for the one id \<open>i\<close> that a request names.
\<close>

record tus_storage =
  tus_files :: "string \<rightharpoonup> bytes"
  tus_metadata :: "string \<rightharpoonup> int \<times> string"

text \<open>The text of an integer in an f-string, and of an optional string (\<open>None\<close> as "None").\<close>

fun str_nat :: "nat \<Rightarrow> string" where
  "str_nat n = (if n < 10 then [char_of (48 + n)]
                else str_nat (n div 10) @ [char_of (48 + n mod 10)])"

declare str_nat.simps [simp del]

definition str_int :: "int \<Rightarrow> string" where
  "str_int i = (if i < 0 then CHR ''-'' # str_nat (nat (- i)) else str_nat (nat i))"

definition str_opt :: "string option \<Rightarrow> string" where
  "str_opt x = (case x of None \<Rightarrow> ''None'' | Some v \<Rightarrow> v)"

definition rstrip_slash :: "string \<Rightarrow> string" where
  "rstrip_slash u = rev (dropWhile (\<lambda>c. c = CHR ''/'') (rev u))"

text \<open>The upload id of \<open>tus_create_upload\<close> (lines 62 to 64).\<close>

definition tus_upload_id :: "(bytes \<Rightarrow> string) \<Rightarrow> user_id \<Rightarrow> int \<Rightarrow> string option \<Rightarrow> string" where
  "tus_upload_id H current_user upload_len upload_metadata =
     take 16 (H (current_user @ ''-'' @ str_int upload_len @ ''-'' @ str_opt upload_metadata))"

definition tus_create_upload ::
  "(bytes \<Rightarrow> string) \<Rightarrow> tus_storage \<Rightarrow> string \<Rightarrow> user_id \<Rightarrow> int \<Rightarrow> string option
     \<Rightarrow> (http_error + response) \<times> tus_storage" where
  "tus_create_upload H st url current_user upload_len upload_metadata =
     (if upload_len > MAX_FILE_SIZE then (Inl TooLarge, st)
      else
        let upload_id = tus_upload_id H current_user upload_len upload_metadata;
            st1 = st\<lparr>tus_metadata := (tus_metadata st)
                        (upload_id \<mapsto> (upload_len,
                                        if truthy upload_metadata then the upload_metadata else []))\<rparr>;
            st2 = (if upload_id \<in> dom (tus_files st1) then st1
                   else st1\<lparr>tus_files := (tus_files st1)(upload_id \<mapsto> [])\<rparr>)
        in (Inr \<lparr>code = 201, hdr_upload_offset = Some 0, hdr_upload_length = None,
                 hdr_location = Some (rstrip_slash url @ ''/'' @ upload_id)\<rparr>,
            st2))"

definition tus_check_offset :: "tus_storage \<Rightarrow> string \<Rightarrow> user_id \<Rightarrow> http_error + response" where
  "tus_check_offset st upload_id current_user =
     (case (tus_files st upload_id, tus_metadata st upload_id) of
        (Some content, Some (upload_len, _)) \<Rightarrow>
          Inr \<lparr>code = 200, hdr_upload_offset = Some (int (length content)),
               hdr_upload_length = Some upload_len, hdr_location = None\<rparr>
      | _ \<Rightarrow> Inl NotFound)"

text \<open>
  \<open>tus_upload_chunk\<close>. The body arrives as a stream of chunks, each appended to the data
  file (mode \<open>"ab"\<close>). On completion the source only prints a line.
\<close>

fun append_stream :: "bytes \<Rightarrow> nat \<Rightarrow> bytes list \<Rightarrow> bytes \<times> nat" where
  "append_stream f bytes_written [] = (f, bytes_written)"
| "append_stream f bytes_written (chunk # chunks) =
     append_stream (f @ chunk) (bytes_written + length chunk) chunks"

definition tus_upload_chunk ::
  "tus_storage \<Rightarrow> string \<Rightarrow> user_id \<Rightarrow> int \<Rightarrow> string \<Rightarrow> bytes list
     \<Rightarrow> (http_error + response) \<times> tus_storage" where
  "tus_upload_chunk st upload_id current_user upload_offset content_type chunks =
     (case (tus_files st upload_id, tus_metadata st upload_id) of
        (Some content, Some (expected_length, _)) \<Rightarrow>
          if content_type \<noteq> ''application/offset+octet-stream''
          then (Inl UnsupportedMediaType, st)
          else if int (length content) \<noteq> upload_offset then (Inl OffsetConflict, st)
          else
            let (content1, bytes_written) = append_stream content 0 chunks;
                st1 = st\<lparr>tus_files := (tus_files st)(upload_id \<mapsto> content1)\<rparr>;
                new_offset = int (length content1)
            in (Inr (offset_response 204 new_offset), st1)
      | _ \<Rightarrow> (Inl NotFound, st))"


section \<open>Example states\<close>

text \<open>
  Concrete states for the closed instances below: a storage directory \<open>/srv/storage\<close>, one
  trip of user \<open>alice\<close> with one segment, and one upload session of four bytes. Where a closed instance needs a hash
  function, \<open>H\<close> is the identity, so the expected hash \<open>''abcd''\<close> of the example session is
  met by exactly the content \<open>''abcd''\<close>.
\<close>

definition example_upload :: UploadSession where
  "example_upload =
     \<lparr>trip_id = 1, segment_id = 2, filename = ''ride.mp4'', file_type = VIDEO_MP4,
      sha256 = Some ''abcd'', upload_length = 4, offset = 0, status = PENDING, updated_at = 0\<rparr>"

definition example_server :: server where
  "example_server =
     \<lparr>storage_dir = ''/srv/storage'',
      trips = [1 \<mapsto> \<lparr>trip_user_id = ''alice''\<rparr>],
      segments = [2 \<mapsto> \<lparr>seg_trip_id = 1, file_size_bytes = None, seg_sha256 = None\<rparr>],
      upload_sessions = [5 \<mapsto> example_upload],
      stored_files = [], files = Map.empty\<rparr>"

definition example_tus :: tus_storage where
  "example_tus = \<lparr>tus_files = [''f00d'' \<mapsto> ''ab''], tus_metadata = [''f00d'' \<mapsto> (4, [])]\<rparr>"

definition example_receiving :: server where
  "example_receiving =
     example_server
       \<lparr>upload_sessions := [5 \<mapsto> example_upload\<lparr>offset := 2, status := RECEIVING, updated_at := 7\<rparr>],
        files := [UploadPath 5 \<mapsto> ''ab'']\<rparr>"


definition example_request :: UploadCreateRequest where
  "example_request =
     \<lparr>req_trip_id = 1, req_segment_id = 2, req_filename = ''track.gpx'',
      req_file_type = OTHER_FILE_TYPE, req_sha256 = None, req_upload_length = 9\<rparr>"

definition example_created :: UploadSession where
  "example_created =
     \<lparr>trip_id = 1, segment_id = 2, filename = ''track.gpx'', file_type = OTHER_FILE_TYPE,
      sha256 = None, upload_length = 9, offset = 0, status = PENDING, updated_at = 3\<rparr>"


definition example_failed :: server where
  "example_failed =
     example_server
       \<lparr>upload_sessions := [5 \<mapsto> example_upload\<lparr>offset := 4, updated_at := 8, status := FAILED\<rparr>]\<rparr>"

definition example_nohash :: server where
  "example_nohash =
     example_server\<lparr>upload_sessions := [5 \<mapsto> example_upload\<lparr>sha256 := None\<rparr>]\<rparr>"

definition example_tus_empty :: tus_storage where
  "example_tus_empty = \<lparr>tus_files = Map.empty, tus_metadata = Map.empty\<rparr>"



section \<open>Properties of single calls\<close>

lemma append_stream_eq:
  "append_stream f n chunks = (f @ concat chunks, n + length (concat chunks))"
  by (induction chunks arbitrary: f n) simp_all

lemma write_stream_eq: "write_stream out chunks = out @ concat chunks"
  by (induction chunks arbitrary: out) simp_all

lemma patch_upload_empty_body:
  assumes "upload_sessions s upload_id = Some upload"
      and "upload_owner s upload = Some current_user"
      and "status upload \<noteq> COMPLETE"
  shows "patch_upload H now s upload_id current_user (offset upload) [] =
           (Inr (offset_response 204 (offset upload)), s)"
  using assms by (simp add: patch_upload_def)

lemma patch_upload_offset_mismatch:
  assumes "upload_sessions s upload_id = Some upload"
      and "upload_owner s upload = Some current_user"
      and "status upload \<noteq> COMPLETE"
      and "upload_offset \<noteq> offset upload"
  shows "patch_upload H now s upload_id current_user upload_offset body = (Inl OffsetConflict, s)"
  using assms by (auto simp add: patch_upload_def)

lemma tus_storage_same_file:
  "tus_files st upload_id = Some content \<Longrightarrow>
     st\<lparr>tus_files := (tus_files st)(upload_id \<mapsto> content)\<rparr> = st"
  by (simp add: map_upd_triv)

lemma tus_upload_chunk_empty:
  assumes "tus_files st upload_id = Some content"
      and "tus_metadata st upload_id = Some m"
      and "concat chunks = []"
  shows "tus_upload_chunk st upload_id current_user (int (length content))
           ''application/offset+octet-stream'' chunks =
         (Inr (offset_response 204 (int (length content))), st)"
proof -
  obtain n meta where m: "m = (n, meta)" by (cases m)
  have app: "append_stream content 0 chunks = (content, 0)"
    unfolding append_stream_eq assms(3) by simp
  show ?thesis
    using assms(1,2) by (simp add: tus_upload_chunk_def m app tus_storage_same_file)
qed

lemma tus_upload_chunk_offset_mismatch:
  assumes "tus_files st upload_id = Some content"
      and "tus_metadata st upload_id = Some m"
      and "upload_offset \<noteq> int (length content)"
  shows "tus_upload_chunk st upload_id current_user upload_offset
           ''application/offset+octet-stream'' chunks = (Inl OffsetConflict, st)"
  using assms by (cases m) (auto simp add: tus_upload_chunk_def)

lemma tus_upload_chunk_ok:
  assumes "tus_upload_chunk st upload_id current_user upload_offset content_type chunks = (Inr r, st')"
  shows "\<exists>content m. tus_files st upload_id = Some content \<and> tus_metadata st upload_id = Some m \<and>
           int (length content) = upload_offset \<and>
           content_type = ''application/offset+octet-stream'' \<and>
           st' = st\<lparr>tus_files := (tus_files st)(upload_id \<mapsto> content @ concat chunks)\<rparr> \<and>
           r = offset_response 204 (upload_offset + int (length (concat chunks)))"
  using assms
  by (auto simp add: tus_upload_chunk_def append_stream_eq split: option.splits if_splits prod.splits)

lemma patch_upload_Inr_nonempty:
  assumes "patch_upload H now s upload_id current_user upload_offset body = (Inr r, s')"
      and "body \<noteq> []"
  shows "\<exists>upload. upload_sessions s upload_id = Some upload \<and>
           upload_owner s upload = Some current_user \<and> offset upload = upload_offset \<and>
           trips s' = trips s \<and>
           (upload_sessions s' upload_id =
              Some (upload\<lparr>offset := upload_offset + int (length body), status := RECEIVING,
                           updated_at := now\<rparr>) \<or>
            upload_sessions s' upload_id =
              Some (upload\<lparr>offset := upload_offset + int (length body), status := COMPLETE,
                           updated_at := now\<rparr>))"
  using assms
  by (auto simp add: patch_upload_def complete_upload_def Let_def
      split: option.splits if_splits sum.splits prod.splits)

lemma patch_upload_resend:
  assumes first: "patch_upload H now s upload_id current_user upload_offset body = (Inr r, s')"
      and "body \<noteq> []"
      and after: "upload_sessions s' upload_id = Some upload'"
      and live: "status upload' \<noteq> COMPLETE"
  shows "patch_upload H now' s' upload_id current_user upload_offset body = (Inl OffsetConflict, s')"
proof -
  from patch_upload_Inr_nonempty [OF first \<open>body \<noteq> []\<close>]
  obtain upload where own: "upload_owner s upload = Some current_user"
    and tr: "trips s' = trips s"
    and u': "upload' = upload\<lparr>offset := upload_offset + int (length body), status := RECEIVING,
                               updated_at := now\<rparr> \<or>
             upload' = upload\<lparr>offset := upload_offset + int (length body), status := COMPLETE,
                               updated_at := now\<rparr>"
    using after by auto
  have own': "upload_owner s' upload' = Some current_user"
    using own tr u' by (auto simp add: upload_owner_def)
  have "offset upload' = upload_offset + int (length body)"
    using u' by auto
  then have "upload_offset \<noteq> offset upload'"
    using \<open>body \<noteq> []\<close> by simp
  from patch_upload_offset_mismatch [OF after own' live this] show ?thesis .
qed

lemma tus_upload_chunk_resend:
  assumes first: "tus_upload_chunk st upload_id current_user upload_offset content_type chunks = (Inr r, st')"
      and "concat chunks \<noteq> []"
  shows "tus_upload_chunk st' upload_id current_user upload_offset content_type chunks =
           (Inl OffsetConflict, st')"
proof -
  from tus_upload_chunk_ok [OF first]
  obtain content m where c: "tus_files st upload_id = Some content"
    and m: "tus_metadata st upload_id = Some m"
    and off: "int (length content) = upload_offset"
    and ct: "content_type = ''application/offset+octet-stream''"
    and st': "st' = st\<lparr>tus_files := (tus_files st)(upload_id \<mapsto> content @ concat chunks)\<rparr>"
    by blast
  have 1: "tus_files st' upload_id = Some (content @ concat chunks)" by (simp add: st')
  have 2: "tus_metadata st' upload_id = Some m" by (simp add: st' m)
  have 3: "upload_offset \<noteq> int (length (content @ concat chunks))"
    using off assms(2) by auto
  from tus_upload_chunk_offset_mismatch [OF 1 2 3] show ?thesis by (simp add: ct)
qed

lemma dest_file_relative:
  "\<not> is_absolute fname \<Longrightarrow> dest_file seg_id fname = SegmentPath seg_id (path_parts fname)"
  by (simp add: dest_file_def)

lemma relative_to_dest_file:
  "\<not> is_absolute fname \<Longrightarrow> relative_to (dest_file seg_id fname) dir = Some (dest_file seg_id fname)"
  by (simp add: dest_file_def relative_to_def)

lemma dest_file_not_upload:
  "dest_file seg_id fname \<noteq> UploadPath i" "UploadPath i \<noteq> dest_file seg_id fname"
  by (simp_all add: dest_file_def)



lemma patch_upload_mismatch:
  assumes "upload_sessions s upload_id = Some upload"
      and "upload_owner s upload = Some current_user"
      and "status upload \<noteq> COMPLETE"
      and "observed (files s) (UploadPath upload_id) = content"
      and "offset upload = int (length content)"
      and "body \<noteq> []"
      and "upload_length upload \<le> offset upload + int (length body)"
      and "sha256 upload \<noteq> Some (H (content @ body))"
  shows "patch_upload H now s upload_id current_user (offset upload) body =
           (Inl ChecksumMismatch,
            s\<lparr>files := (files s)(UploadPath upload_id := None,
                                dest_file (segment_id upload) (filename upload) := None),
              upload_sessions := (upload_sessions s)
                (upload_id \<mapsto> upload\<lparr>offset := offset upload + int (length body),
                                    updated_at := now, status := FAILED\<rparr>)\<rparr>)"
  using assms
  by (auto simp add: patch_upload_def complete_upload_def write_chunk_def finalize_upload_def
      get_upload_path_def relative_to_dest_file dest_file_not_upload Let_def)






lemma create_upload_Inl:
  assumes "create_upload now new_id s payload current_user = (Inl e, s')"
  shows "s' = s"
  using assms
  by (auto simp add: create_upload_def Let_def split: option.splits if_splits)


lemma patch_upload_checksum_mismatch:
  assumes "upload_sessions s upload_id = Some upload"
      and "patch_upload H now s upload_id current_user upload_offset body =
             (Inl ChecksumMismatch, s')"
  shows "upload_sessions s' upload_id =
           Some (upload\<lparr>offset := offset upload + int (length body), updated_at := now,
                        status := FAILED\<rparr>) \<and>
         upload_length upload \<le> offset upload + int (length body) \<and>
         stored_files s' = stored_files s \<and>
         files s' (dest_file (segment_id upload) (filename upload)) = None \<and>
         head_upload s' upload_id current_user =
           Inr \<lparr>code = 204, hdr_upload_offset = Some (offset upload + int (length body)),
                hdr_upload_length = Some (upload_length upload), hdr_location = None\<rparr>"
  using assms
  by (auto simp add: patch_upload_def complete_upload_def write_chunk_def finalize_upload_def
      head_upload_def upload_owner_def dest_file_not_upload Let_def
      split: option.splits if_splits sum.splits prod.splits)

lemma tus_upload_chunk_growth:
  assumes "tus_files st upload_id = Some content"
      and "tus_metadata st upload_id = Some m"
      and "tus_upload_chunk st upload_id current_user upload_offset content_type chunks = (r, st')"
  shows "tus_metadata st' upload_id = Some m \<and>
         (tus_files st' upload_id = Some content \<or>
          tus_files st' upload_id = Some (content @ concat chunks))"
  using assms
  by (auto simp add: tus_upload_chunk_def append_stream_eq split: if_splits prod.splits)

lemma str_int_4: "str_int 4 = ''4''" by code_simp

lemma example_upload_id: "tus_upload_id id ''alice'' 4 None = ''alice-4-None''"
  by (simp add: tus_upload_id_def str_int_4 str_opt_def)

lemma tus_create_upload_too_large:
  assumes "MAX_FILE_SIZE < upload_len"
  shows "tus_create_upload H st url current_user upload_len upload_metadata = (Inl TooLarge, st)"
  using assms by (simp add: tus_create_upload_def)

lemma tus_create_upload_ok:
  assumes "upload_len \<le> MAX_FILE_SIZE"
      and "tus_create_upload H st url current_user upload_len upload_metadata = (r, st')"
  shows "r = Inr \<lparr>code = 201, hdr_upload_offset = Some 0, hdr_upload_length = None,
                  hdr_location = Some (rstrip_slash url @ ''/'' @
                    tus_upload_id H current_user upload_len upload_metadata)\<rparr> \<and>
         tus_upload_id H current_user upload_len upload_metadata \<in> dom (tus_files st') \<and>
         (\<exists>m. tus_metadata st' (tus_upload_id H current_user upload_len upload_metadata) =
                Some (upload_len, m))"
  using assms by (auto simp add: tus_create_upload_def Let_def split: if_splits)

lemma create_upload_ok:
  assumes "trips s (req_trip_id payload) = Some trip"
      and "segments s (req_segment_id payload) = Some segment"
      and "seg_trip_id segment = req_trip_id payload"
      and "trip_user_id trip = current_user"
      and "new_id \<notin> dom (upload_sessions s)"
  shows "\<exists>upload. create_upload now new_id s payload current_user =
           (Inr (new_id, upload), s\<lparr>upload_sessions := (upload_sessions s)(new_id \<mapsto> upload)\<rparr>) \<and>
           status upload = PENDING \<and> offset upload = 0 \<and>
           upload_length upload = req_upload_length payload"
  using assms by (auto simp add: create_upload_def Let_def)

lemma create_upload_not_found:
  assumes "trips s (req_trip_id payload) = None \<or> segments s (req_segment_id payload) = None \<or>
           (\<exists>trip segment. trips s (req_trip_id payload) = Some trip \<and>
              segments s (req_segment_id payload) = Some segment \<and>
              (seg_trip_id segment \<noteq> req_trip_id payload \<or> trip_user_id trip \<noteq> current_user))"
  shows "create_upload now new_id s payload current_user = (Inl NotFound, s)"
  using assms by (auto simp add: create_upload_def Let_def split: option.splits)

lemma head_upload_missing:
  assumes "upload_sessions s upload_id = None"
  shows "head_upload s upload_id current_user = Inl NotFound \<and>
         patch_upload H now s upload_id current_user upload_offset body = (Inl NotFound, s)"
  using assms by (simp add: head_upload_def patch_upload_def)

lemma head_upload_foreign:
  assumes "upload_sessions s upload_id = Some upload"
      and "upload_owner s upload = Some owner" and "owner \<noteq> current_user"
  shows "head_upload s upload_id current_user = Inl NotFound \<and>
         patch_upload H now s upload_id current_user upload_offset body = (Inl NotFound, s)"
  using assms by (simp add: head_upload_def patch_upload_def)

lemma head_upload_owner:
  assumes "upload_sessions s upload_id = Some upload"
      and "upload_owner s upload = Some current_user"
  shows "head_upload s upload_id current_user =
           Inr \<lparr>code = 204, hdr_upload_offset = Some (offset upload),
                hdr_upload_length = Some (upload_length upload), hdr_location = None\<rparr>"
  using assms by (simp add: head_upload_def)

lemma tus_missing:
  assumes "tus_files st upload_id = None \<or> tus_metadata st upload_id = None"
  shows "tus_check_offset st upload_id current_user = Inl NotFound \<and>
         tus_upload_chunk st upload_id current_user upload_offset content_type chunks =
           (Inl NotFound, st)"
  using assms
  by (auto simp add: tus_check_offset_def tus_upload_chunk_def split: option.splits)

lemma tus_check_offset_any_caller:
  assumes "tus_files st upload_id = Some content"
      and "tus_metadata st upload_id = Some (upload_len, meta)"
  shows "tus_check_offset st upload_id current_user =
           Inr \<lparr>code = 200, hdr_upload_offset = Some (int (length content)),
                hdr_upload_length = Some upload_len, hdr_location = None\<rparr>"
  using assms by (simp add: tus_check_offset_def)





section \<open>Zero-byte chunks\<close>

text \<open>
  C9. For every non-terminal session, an AcceptChunk call with a zero-byte payload at the
  session's current offset succeeds, reports the unchanged offset and leaves the whole state
  unchanged. First conjunct: \<open>patch_upload\<close>, called by the owner, on a session whose status is
  \<open>PENDING\<close> or \<open>RECEIVING\<close>. Second conjunct: \<open>tus_upload_chunk\<close> with the content type of
  the protocol, on an upload whose files exist, for a stream that carries no byte.
\<close>

theorem zero_byte_chunk_no_op:
  "(upload_sessions s upload_id = Some upload \<and> upload_owner s upload = Some current_user \<and>
    (status upload = PENDING \<or> status upload = RECEIVING)
    \<longrightarrow> patch_upload H now s upload_id current_user (offset upload) [] =
          (Inr (offset_response 204 (offset upload)), s))
   \<and>
   (tus_files st tus_id = Some content \<and> tus_metadata st tus_id = Some m \<and> concat chunks = []
    \<longrightarrow> tus_upload_chunk st tus_id tus_user (int (length content))
            ''application/offset+octet-stream'' chunks =
          (Inr (offset_response 204 (int (length content))), st))"
  using patch_upload_empty_body [of s upload_id upload current_user H now]
    tus_upload_chunk_empty [of st tus_id content m chunks tus_user]
  by auto

theorem zero_byte_chunk_no_op_witness:
  "upload_sessions example_server 5 = Some example_upload \<and>
   upload_owner example_server example_upload = Some ''alice'' \<and>
   status example_upload = PENDING \<and>
   patch_upload id 7 example_server 5 ''alice'' 0 [] =
     (Inr (offset_response 204 0), example_server) \<and>
   tus_files example_tus ''f00d'' = Some ''ab'' \<and>
   tus_metadata example_tus ''f00d'' = Some (4, []) \<and>
   concat [[], []] = ([] :: bytes) \<and>
   tus_upload_chunk example_tus ''f00d'' ''alice'' 2 ''application/offset+octet-stream'' [[], []] =
     (Inr (offset_response 204 2), example_tus)"
  using zero_byte_chunk_no_op [where s = example_server and upload_id = 5
      and upload = example_upload and current_user = "''alice''" and H = id and now = 7
      and st = example_tus and tus_id = "''f00d''" and content = "''ab''" and m = "(4, [])"
      and chunks = "[[], []]" and tus_user = "''alice''"]
  by (simp add: example_server_def example_upload_def example_tus_def upload_owner_def)

section \<open>Stale offsets\<close>

text \<open>
  C4. For every non-terminal session, an AcceptChunk call whose claimed offset differs from the
  offset of the session fails with \<open>OffsetConflict\<close> and changes neither the session nor
  any file (the state returned is the state given); in particular, a chunk that is sent again
  after its first transmission advanced the offset of a session that is still non-terminal
  fails with \<open>OffsetConflict\<close>. Conjuncts one and two: \<open>patch_upload\<close> called by the owner;
  conjuncts three and four: \<open>tus_upload_chunk\<close>.
\<close>

theorem stale_offset_rejected:
  "(upload_sessions s upload_id = Some upload \<and> upload_owner s upload = Some current_user \<and>
    (status upload = PENDING \<or> status upload = RECEIVING) \<and> upload_offset \<noteq> offset upload
    \<longrightarrow> patch_upload H now s upload_id current_user upload_offset body = (Inl OffsetConflict, s))
   \<and>
   (patch_upload H now_a sa uid_a user_a off_a body_a = (Inr ra, sb) \<and> body_a \<noteq> [] \<and>
    upload_sessions sb uid_a = Some upload_b \<and>
    (status upload_b = PENDING \<or> status upload_b = RECEIVING)
    \<longrightarrow> patch_upload H now_b sb uid_a user_a off_a body_a = (Inl OffsetConflict, sb))
   \<and>
   (tus_files st tus_id = Some content \<and> tus_metadata st tus_id = Some m \<and>
    tus_offset \<noteq> int (length content)
    \<longrightarrow> tus_upload_chunk st tus_id tus_user tus_offset ''application/offset+octet-stream'' chunks =
          (Inl OffsetConflict, st))
   \<and>
   (tus_upload_chunk ta tid_a tuser_a toff_a content_type chunks_a = (Inr rb, tb) \<and>
    concat chunks_a \<noteq> []
    \<longrightarrow> tus_upload_chunk tb tid_a tuser_a toff_a content_type chunks_a =
          (Inl OffsetConflict, tb))"
proof -
  have a: "upload_sessions s upload_id = Some upload \<Longrightarrow>
           upload_owner s upload = Some current_user \<Longrightarrow>
           status upload = PENDING \<or> status upload = RECEIVING \<Longrightarrow>
           upload_offset \<noteq> offset upload \<Longrightarrow>
           patch_upload H now s upload_id current_user upload_offset body = (Inl OffsetConflict, s)"
    by (rule patch_upload_offset_mismatch) auto
  have b: "patch_upload H now_a sa uid_a user_a off_a body_a = (Inr ra, sb) \<Longrightarrow>
           body_a \<noteq> [] \<Longrightarrow> upload_sessions sb uid_a = Some upload_b \<Longrightarrow>
           status upload_b = PENDING \<or> status upload_b = RECEIVING \<Longrightarrow>
           patch_upload H now_b sb uid_a user_a off_a body_a = (Inl OffsetConflict, sb)"
    by (rule patch_upload_resend) auto
  show ?thesis
    using a b tus_upload_chunk_offset_mismatch [of st tus_id content m tus_offset tus_user chunks]
      tus_upload_chunk_resend [of ta tid_a tuser_a toff_a content_type chunks_a rb tb]
    by blast
qed

theorem stale_offset_rejected_witness:
  "upload_sessions example_server 5 = Some example_upload \<and>
   upload_owner example_server example_upload = Some ''alice'' \<and>
   status example_upload = PENDING \<and> (3::int) \<noteq> offset example_upload \<and>
   patch_upload id 7 example_server 5 ''alice'' 3 ''zz'' = (Inl OffsetConflict, example_server) \<and>
   patch_upload id 7 example_server 5 ''alice'' 0 ''ab'' =
     (Inr (offset_response 204 2), example_receiving) \<and>
   ''ab'' \<noteq> [] \<and>
   upload_sessions example_receiving 5 =
     Some (example_upload\<lparr>offset := 2, status := RECEIVING, updated_at := 7\<rparr>) \<and>
   patch_upload id 8 example_receiving 5 ''alice'' 0 ''ab'' = (Inl OffsetConflict, example_receiving) \<and>
   tus_files example_tus ''f00d'' = Some ''ab'' \<and>
   tus_metadata example_tus ''f00d'' = Some (4, []) \<and>
   (0::int) \<noteq> int (length ''ab'') \<and>
   tus_upload_chunk example_tus ''f00d'' ''alice'' 0 ''application/offset+octet-stream'' [''ab''] =
     (Inl OffsetConflict, example_tus) \<and>
   tus_upload_chunk example_tus ''f00d'' ''alice'' 2 ''application/offset+octet-stream'' [''c''] =
     (Inr (offset_response 204 3), example_tus\<lparr>tus_files := [''f00d'' \<mapsto> ''abc'']\<rparr>) \<and>
   concat [''c''] \<noteq> [] \<and>
   tus_upload_chunk (example_tus\<lparr>tus_files := [''f00d'' \<mapsto> ''abc'']\<rparr>) ''f00d'' ''alice'' 2
     ''application/offset+octet-stream'' [''c''] =
     (Inl OffsetConflict, example_tus\<lparr>tus_files := [''f00d'' \<mapsto> ''abc'']\<rparr>)"
  using stale_offset_rejected [where s = example_server and upload_id = 5
      and upload = example_upload and current_user = "''alice''" and upload_offset = 3
      and H = id and now = 7 and body = "''zz''"
      and now_a = 7 and sa = example_server and uid_a = 5 and user_a = "''alice''"
      and off_a = 0 and body_a = "''ab''" and ra = "offset_response 204 2"
      and sb = example_receiving
      and upload_b = "example_upload\<lparr>offset := 2, status := RECEIVING, updated_at := 7\<rparr>"
      and now_b = 8
      and st = example_tus and tus_id = "''f00d''" and content = "''ab''" and m = "(4, [])"
      and tus_offset = 0 and tus_user = "''alice''" and chunks = "[''ab'']"
      and ta = example_tus and tid_a = "''f00d''" and tuser_a = "''alice''"
      and toff_a = 2 and content_type = "''application/offset+octet-stream''"
      and chunks_a = "[''c'']" and rb = "offset_response 204 3"
      and tb = "example_tus\<lparr>tus_files := [''f00d'' \<mapsto> ''abc'']\<rparr>"]
  by (simp add: example_server_def example_upload_def example_tus_def example_receiving_def
      upload_owner_def patch_upload_def tus_upload_chunk_def write_chunk_def observed_def
      get_upload_path_def)

section \<open>Sequences of calls\<close>





section \<open>Complete uploads\<close>




section \<open>The offset of a session\<close>




section \<open>Failed sessions\<close>

text \<open>
  C10, as amended. For every session that \<open>patch_upload\<close> moves to \<open>FAILED\<close> through a checksum
  mismatch at finalization, the offset is not rolled back: it stays at the value credited
  before the hash check, the old offset plus the length of the payload, which is at least the
  declared length. A following \<open>head_upload\<close> by the same caller reports that offset and the
  declared length, although no \<open>StoredFile\<close> was recorded and the permanent file is absent.
  The offset reported equals the declared length when the payload ended exactly there
  (second conjunct).
\<close>

theorem failed_session_keeps_offset:
  "(upload_sessions s upload_id = Some upload \<and>
    patch_upload H now s upload_id current_user upload_offset body = (Inl ChecksumMismatch, s')
    \<longrightarrow> upload_sessions s' upload_id =
            Some (upload\<lparr>offset := offset upload + int (length body), updated_at := now,
                         status := FAILED\<rparr>) \<and>
          upload_length upload \<le> offset upload + int (length body) \<and>
          stored_files s' = stored_files s \<and>
          files s' (dest_file (segment_id upload) (filename upload)) = None \<and>
          head_upload s' upload_id current_user =
            Inr \<lparr>code = 204, hdr_upload_offset = Some (offset upload + int (length body)),
                 hdr_upload_length = Some (upload_length upload), hdr_location = None\<rparr>)
   \<and>
   (upload_sessions sa uid_a = Some upload_a \<and>
    patch_upload H now_a sa uid_a user_a off_a body_a = (Inl ChecksumMismatch, sb) \<and>
    offset upload_a + int (length body_a) = upload_length upload_a
    \<longrightarrow> head_upload sb uid_a user_a =
            Inr \<lparr>code = 204, hdr_upload_offset = Some (upload_length upload_a),
                 hdr_upload_length = Some (upload_length upload_a), hdr_location = None\<rparr>)"
  using patch_upload_checksum_mismatch [of s upload_id upload H now current_user upload_offset body s']
    patch_upload_checksum_mismatch [of sa uid_a upload_a H now_a user_a off_a body_a sb]
  by auto

theorem failed_session_keeps_offset_witness:
  "upload_sessions example_receiving 5 =
     Some (example_upload\<lparr>offset := 2, status := RECEIVING, updated_at := 7\<rparr>) \<and>
   fst (patch_upload id 8 example_receiving 5 ''alice'' 2 ''cX'') = Inl ChecksumMismatch \<and>
   (2::int) + int (length ''cX'') = upload_length example_upload \<and>
   upload_sessions (snd (patch_upload id 8 example_receiving 5 ''alice'' 2 ''cX'')) 5 =
     Some (example_upload\<lparr>offset := 4, updated_at := 8, status := FAILED\<rparr>) \<and>
   stored_files (snd (patch_upload id 8 example_receiving 5 ''alice'' 2 ''cX'')) = [] \<and>
   files (snd (patch_upload id 8 example_receiving 5 ''alice'' 2 ''cX''))
     (SegmentPath 2 [''ride.mp4'']) = None \<and>
   head_upload (snd (patch_upload id 8 example_receiving 5 ''alice'' 2 ''cX'')) 5 ''alice'' =
     Inr \<lparr>code = 204, hdr_upload_offset = Some 4, hdr_upload_length = Some 4,
          hdr_location = None\<rparr>"
  using failed_session_keeps_offset [where s = example_receiving and upload_id = 5
      and upload = "example_upload\<lparr>offset := 2, status := RECEIVING, updated_at := 7\<rparr>"
      and H = id and now = 8 and current_user = "''alice''" and upload_offset = 2
      and body = "''cX''"
      and s' = "snd (patch_upload id 8 example_receiving 5 ''alice'' 2 ''cX'')"
      and sa = example_receiving and uid_a = 5
      and upload_a = "example_upload\<lparr>offset := 2, status := RECEIVING, updated_at := 7\<rparr>"
      and now_a = 8 and user_a = "''alice''" and off_a = 2 and body_a = "''cX''"
      and sb = "snd (patch_upload id 8 example_receiving 5 ''alice'' 2 ''cX'')"]
  by (simp add: example_server_def example_upload_def example_receiving_def
      upload_owner_def patch_upload_def complete_upload_def head_upload_def
      write_chunk_def finalize_upload_def observed_def get_upload_path_def Let_def
      dest_file_def relative_to_def is_absolute_def path_root_def path_parts_def)

text \<open>
  C10 as stated fails: the offset of a session that failed its checksum need not equal the
  declared length. The example session of declared length 4, holding two bytes, takes five
  more, fails the checksum and is left \<open>FAILED\<close> at offset 7, which \<open>head_upload\<close> reports.
\<close>

theorem failed_session_offset_beyond_length:
  "fst (patch_upload id 8 example_receiving 5 ''alice'' 2 ''cdefg'') = Inl ChecksumMismatch \<and>
   upload_sessions (snd (patch_upload id 8 example_receiving 5 ''alice'' 2 ''cdefg'')) 5 =
     Some (example_upload\<lparr>offset := 7, updated_at := 8, status := FAILED\<rparr>) \<and>
   upload_length example_upload = 4 \<and>
   head_upload (snd (patch_upload id 8 example_receiving 5 ''alice'' 2 ''cdefg'')) 5 ''alice'' =
     Inr \<lparr>code = 204, hdr_upload_offset = Some 7, hdr_upload_length = Some 4,
          hdr_location = None\<rparr>"
  by (simp add: example_server_def example_upload_def example_receiving_def
      upload_owner_def patch_upload_def complete_upload_def head_upload_def
      write_chunk_def finalize_upload_def observed_def get_upload_path_def Let_def
      dest_file_def relative_to_def is_absolute_def path_root_def path_parts_def)

section \<open>Terminal sessions\<close>

text \<open>
  C3. A session whose status is \<open>FAILED\<close> is not refused by \<open>patch_upload\<close>, which tests
  only for \<open>COMPLETE\<close> (line 80). The example session, left \<open>FAILED\<close> at offset 4 by a
  checksum mismatch, answers a zero-byte chunk at its offset with success and a chunk at
  another offset with \<open>OffsetConflict\<close>; neither call fails with \<open>AlreadyTerminal\<close>.
\<close>

theorem failed_session_is_not_terminal:
  "patch_upload H now example_failed 5 ''alice'' 4 [] =
     (Inr (offset_response 204 4), example_failed) \<and>
   patch_upload H now example_failed 5 ''alice'' 0 ''ab'' = (Inl OffsetConflict, example_failed)"
  by (simp add: example_failed_def example_server_def example_upload_def patch_upload_def
      upload_owner_def)

section \<open>Sessions without an expected hash\<close>

text \<open>
  C5. A session created without an expected hash cannot be completed through
  \<open>patch_upload\<close>: line 101 compares the computed hash with \<open>upload.sha256\<close>, which is
  \<open>None\<close>, so the comparison always differs, the session ends \<open>FAILED\<close> and nothing is
  stored. \<open>direct_put_upload\<close> guards the same comparison with \<open>upload.sha256 and\<close>
  (line 259): on the same session and bytes it records the file and ends \<open>COMPLETE\<close>.
\<close>

theorem missing_hash_fails_checksum:
  "fst (patch_upload H now example_nohash 5 ''alice'' 0 ''abcd'') = Inl ChecksumMismatch \<and>
   upload_sessions (snd (patch_upload H now example_nohash 5 ''alice'' 0 ''abcd'')) 5 =
     Some (example_upload\<lparr>sha256 := None, offset := 4, updated_at := now, status := FAILED\<rparr>) \<and>
   stored_files (snd (patch_upload H now example_nohash 5 ''alice'' 0 ''abcd'')) = [] \<and>
   fst (direct_put_upload H example_nohash 5 ''alice'' [''abcd'']) = Inr (H ''abcd'', 4) \<and>
   upload_sessions (snd (direct_put_upload H example_nohash 5 ''alice'' [''abcd''])) 5 =
     Some (example_upload\<lparr>sha256 := None, status := COMPLETE\<rparr>)"
  by (simp add: example_nohash_def example_server_def example_upload_def patch_upload_def
      complete_upload_def direct_put_upload_def truthy_def upload_owner_def write_chunk_def
      finalize_upload_def observed_def get_upload_path_def Let_def
      dest_file_def relative_to_def is_absolute_def path_root_def path_parts_def)

section \<open>Upload ids\<close>

text \<open>
  C8. The id that \<open>tus_create_upload\<close> generates is a hash of the user id, the declared
  length and the metadata (lines 62 to 64), so it does not depend on the state of the storage:
  two Create calls with the same three values answer with the same location. Second to fourth
  conjunct: after a first Create by \<open>alice\<close>, two bytes sent to it, and a second Create with
  the same values, the storage holds one data file, it still holds the two bytes of the first
  upload, and \<open>tus_check_offset\<close> on the id just returned reports offset 2.
\<close>

theorem same_request_same_upload_id:
  "fst (tus_create_upload H st' url current_user upload_len upload_metadata) =
     fst (tus_create_upload H st url current_user upload_len upload_metadata) \<and>
   fst (tus_create_upload H
          (snd (tus_upload_chunk (snd (tus_create_upload H example_tus_empty url ''alice'' 4 None))
                  (tus_upload_id H ''alice'' 4 None) ''alice'' 0
                  ''application/offset+octet-stream'' [''ab'']))
          url ''alice'' 4 None) =
     Inr \<lparr>code = 201, hdr_upload_offset = Some 0, hdr_upload_length = None,
          hdr_location = Some (rstrip_slash url @ ''/'' @ tus_upload_id H ''alice'' 4 None)\<rparr> \<and>
   tus_files (snd (tus_create_upload H
          (snd (tus_upload_chunk (snd (tus_create_upload H example_tus_empty url ''alice'' 4 None))
                  (tus_upload_id H ''alice'' 4 None) ''alice'' 0
                  ''application/offset+octet-stream'' [''ab'']))
          url ''alice'' 4 None)) =
     [tus_upload_id H ''alice'' 4 None \<mapsto> ''ab''] \<and>
   tus_check_offset (snd (tus_create_upload H
          (snd (tus_upload_chunk (snd (tus_create_upload H example_tus_empty url ''alice'' 4 None))
                  (tus_upload_id H ''alice'' 4 None) ''alice'' 0
                  ''application/offset+octet-stream'' [''ab'']))
          url ''alice'' 4 None)) (tus_upload_id H ''alice'' 4 None) ''alice'' =
     Inr \<lparr>code = 200, hdr_upload_offset = Some 2, hdr_upload_length = Some 4,
          hdr_location = None\<rparr>"
  by (simp add: tus_create_upload_def tus_upload_chunk_def tus_check_offset_def
      example_tus_empty_def MAX_FILE_SIZE_def truthy_def Let_def)

section \<open>Creating a session\<close>

text \<open>
  C6, as amended. For every TUS Create request (\<open>tus_create_upload\<close>): if the declared
  length exceeds \<open>MAX_FILE_SIZE\<close> the request fails with \<open>TooLarge\<close> and the storage is
  unchanged (first conjunct); otherwise it answers 201 with offset 0 and the location of the
  upload id, and the data file and the metadata file of that id exist afterwards (second
  conjunct). \<open>create_upload\<close> compares the declared length with no maximum: every request for
  a segment of a trip of the caller, whatever its declared length, the new id being unused,
  stores and returns a session with status \<open>PENDING\<close>, offset 0 and that declared length
  (third conjunct).
\<close>

theorem create_session_outcomes:
  "(MAX_FILE_SIZE < upload_len
    \<longrightarrow> tus_create_upload H st url tus_user upload_len upload_metadata = (Inl TooLarge, st))
   \<and>
   (len_a \<le> MAX_FILE_SIZE \<and> tus_create_upload H ta url_a user_a len_a meta_a = (ra, tb)
    \<longrightarrow> ra = Inr \<lparr>code = 201, hdr_upload_offset = Some 0, hdr_upload_length = None,
                   hdr_location = Some (rstrip_slash url_a @ ''/'' @
                     tus_upload_id H user_a len_a meta_a)\<rparr> \<and>
          tus_upload_id H user_a len_a meta_a \<in> dom (tus_files tb) \<and>
          (\<exists>m. tus_metadata tb (tus_upload_id H user_a len_a meta_a) = Some (len_a, m)))
   \<and>
   (trips sb (req_trip_id payload_b) = Some trip_b \<and>
    segments sb (req_segment_id payload_b) = Some segment_b \<and>
    seg_trip_id segment_b = req_trip_id payload_b \<and> trip_user_id trip_b = user_b \<and>
    id_b \<notin> dom (upload_sessions sb)
    \<longrightarrow> (\<exists>upload. create_upload now_b id_b sb payload_b user_b =
            (Inr (id_b, upload), sb\<lparr>upload_sessions := (upload_sessions sb)(id_b \<mapsto> upload)\<rparr>) \<and>
            status upload = PENDING \<and> offset upload = 0 \<and>
            upload_length upload = req_upload_length payload_b))"
  using tus_create_upload_too_large [of upload_len H st url tus_user upload_metadata]
    tus_create_upload_ok [of len_a H ta url_a user_a meta_a ra tb]
    create_upload_ok [of sb payload_b trip_b segment_b user_b id_b now_b]
  by blast

theorem create_session_outcomes_witness:
  "MAX_FILE_SIZE < 2000000000 \<and>
   tus_create_upload id example_tus_empty ''http://host/tus/files/'' ''alice'' 2000000000 None =
     (Inl TooLarge, example_tus_empty) \<and>
   4 \<le> MAX_FILE_SIZE \<and>
   tus_create_upload id example_tus_empty ''http://host/tus/files/'' ''alice'' 4 None =
     (Inr \<lparr>code = 201, hdr_upload_offset = Some 0, hdr_upload_length = None,
           hdr_location = Some ''http://host/tus/files/alice-4-None''\<rparr>,
      \<lparr>tus_files = [''alice-4-None'' \<mapsto> []], tus_metadata = [''alice-4-None'' \<mapsto> (4, [])]\<rparr>) \<and>
   trips example_server (req_trip_id example_request) = Some \<lparr>trip_user_id = ''alice''\<rparr> \<and>
   segments example_server (req_segment_id example_request) =
     Some \<lparr>seg_trip_id = 1, file_size_bytes = None, seg_sha256 = None\<rparr> \<and>
   6 \<notin> dom (upload_sessions example_server) \<and>
   create_upload 3 6 example_server example_request ''alice'' =
     (Inr (6, example_created),
      example_server\<lparr>upload_sessions := [5 \<mapsto> example_upload, 6 \<mapsto> example_created]\<rparr>) \<and>
   status example_created = PENDING \<and> offset example_created = 0 \<and>
   upload_length example_created = req_upload_length example_request"
  using create_session_outcomes [where upload_len = 2000000000 and H = id
      and st = example_tus_empty and url = "''http://host/tus/files/''"
      and tus_user = "''alice''" and upload_metadata = None
      and len_a = 4 and ta = example_tus_empty and url_a = "''http://host/tus/files/''"
      and user_a = "''alice''" and meta_a = None
      and ra = "Inr \<lparr>code = 201, hdr_upload_offset = Some 0, hdr_upload_length = None,
           hdr_location = Some ''http://host/tus/files/alice-4-None''\<rparr>"
      and tb = "\<lparr>tus_files = [''alice-4-None'' \<mapsto> []],
                 tus_metadata = [''alice-4-None'' \<mapsto> (4, [])]\<rparr>"
      and sb = example_server and payload_b = example_request
      and trip_b = "\<lparr>trip_user_id = ''alice''\<rparr>"
      and segment_b = "\<lparr>seg_trip_id = 1, file_size_bytes = None, seg_sha256 = None\<rparr>"
      and user_b = "''alice''" and id_b = 6 and now_b = 3]
  by (simp add: example_server_def example_upload_def example_tus_empty_def
      example_request_def example_created_def create_upload_def tus_create_upload_def
      MAX_FILE_SIZE_def truthy_def rstrip_slash_def example_upload_id Let_def)

text \<open>
  C6 as stated fails: a Create request whose declared length exceeds the maximum is not
  always refused. \<open>create_upload\<close>, called by the owner of the trip with a declared length of
  2000000000 bytes, above \<open>MAX_FILE_SIZE\<close>, stores and returns a \<open>PENDING\<close> session of that
  length.
\<close>

theorem create_upload_accepts_oversized:
  "MAX_FILE_SIZE < req_upload_length (example_request\<lparr>req_upload_length := 2000000000\<rparr>) \<and>
   create_upload 3 6 example_server (example_request\<lparr>req_upload_length := 2000000000\<rparr>)
     ''alice'' =
     (Inr (6, example_created\<lparr>upload_length := 2000000000\<rparr>),
      example_server
        \<lparr>upload_sessions :=
           [5 \<mapsto> example_upload, 6 \<mapsto> example_created\<lparr>upload_length := 2000000000\<rparr>]\<rparr>) \<and>
   status (example_created\<lparr>upload_length := 2000000000\<rparr>) = PENDING"
  by (simp add: example_server_def example_request_def example_created_def create_upload_def
      MAX_FILE_SIZE_def Let_def)

section \<open>Querying the offset\<close>

text \<open>
  C7, as amended. In \<^verbatim>\<open>uploads.py\<close>, \<open>head_upload\<close> and \<open>patch_upload\<close> fail with
  \<open>NotFound\<close>, the state unchanged, if the session does not exist (first conjunct) or its
  trip belongs to another user than the caller (second conjunct); \<open>head_upload\<close> by the
  owner returns the offset and the declared length of the session (third conjunct). In
  \<^verbatim>\<open>tus_upload.py\<close>, \<open>tus_check_offset\<close> and \<open>tus_upload_chunk\<close> fail with \<open>NotFound\<close>
  if the data file or the metadata file of the id does not exist (fourth conjunct); otherwise
  \<open>tus_check_offset\<close> returns the size of the data file and the declared length to every
  caller: the handler stores no owner and does not look at who calls (fifth conjunct).
\<close>

theorem query_offset_outcomes:
  "(upload_sessions s upload_id = None
    \<longrightarrow> head_upload s upload_id current_user = Inl NotFound \<and>
          patch_upload H now s upload_id current_user upload_offset body = (Inl NotFound, s))
   \<and>
   (upload_sessions sa uid_a = Some upload_a \<and> upload_owner sa upload_a = Some owner \<and>
    owner \<noteq> user_a
    \<longrightarrow> head_upload sa uid_a user_a = Inl NotFound \<and>
          patch_upload H now_a sa uid_a user_a off_a body_a = (Inl NotFound, sa))
   \<and>
   (upload_sessions sb uid_b = Some upload_b \<and> upload_owner sb upload_b = Some user_b
    \<longrightarrow> head_upload sb uid_b user_b =
            Inr \<lparr>code = 204, hdr_upload_offset = Some (offset upload_b),
                 hdr_upload_length = Some (upload_length upload_b), hdr_location = None\<rparr>)
   \<and>
   (tus_files st tus_id = None \<or> tus_metadata st tus_id = None
    \<longrightarrow> tus_check_offset st tus_id tus_user = Inl NotFound \<and>
          tus_upload_chunk st tus_id tus_user tus_offset content_type chunks = (Inl NotFound, st))
   \<and>
   (tus_files ta tid_a = Some content \<and> tus_metadata ta tid_a = Some (upload_len, meta)
    \<longrightarrow> tus_check_offset ta tid_a any_user =
            Inr \<lparr>code = 200, hdr_upload_offset = Some (int (length content)),
                 hdr_upload_length = Some upload_len, hdr_location = None\<rparr>)"
  using head_upload_missing [of s upload_id current_user H now upload_offset body]
    head_upload_foreign [of sa uid_a upload_a owner user_a H now_a off_a body_a]
    head_upload_owner [of sb uid_b upload_b user_b]
    tus_missing [of st tus_id tus_user tus_offset content_type chunks]
    tus_check_offset_any_caller [of ta tid_a content upload_len meta any_user]
  by blast

theorem query_offset_outcomes_witness:
  "upload_sessions example_server 6 = None \<and>
   head_upload example_server 6 ''alice'' = Inl NotFound \<and>
   patch_upload id 7 example_server 6 ''alice'' 0 ''ab'' = (Inl NotFound, example_server) \<and>
   upload_sessions example_receiving 5 =
     Some (example_upload\<lparr>offset := 2, status := RECEIVING, updated_at := 7\<rparr>) \<and>
   upload_owner example_receiving
     (example_upload\<lparr>offset := 2, status := RECEIVING, updated_at := 7\<rparr>) = Some ''alice'' \<and>
   ''alice'' \<noteq> ''bob'' \<and>
   head_upload example_receiving 5 ''bob'' = Inl NotFound \<and>
   patch_upload id 8 example_receiving 5 ''bob'' 2 ''cd'' = (Inl NotFound, example_receiving) \<and>
   head_upload example_receiving 5 ''alice'' =
     Inr \<lparr>code = 204, hdr_upload_offset = Some 2, hdr_upload_length = Some 4,
          hdr_location = None\<rparr> \<and>
   tus_files example_tus ''beef'' = None \<and>
   tus_check_offset example_tus ''beef'' ''alice'' = Inl NotFound \<and>
   tus_upload_chunk example_tus ''beef'' ''alice'' 0 ''application/offset+octet-stream'' [''ab''] =
     (Inl NotFound, example_tus) \<and>
   tus_files example_tus ''f00d'' = Some ''ab'' \<and>
   tus_metadata example_tus ''f00d'' = Some (4, []) \<and>
   tus_check_offset example_tus ''f00d'' ''alice'' =
     Inr \<lparr>code = 200, hdr_upload_offset = Some 2, hdr_upload_length = Some 4,
          hdr_location = None\<rparr>"
  using query_offset_outcomes [where s = example_server and upload_id = 6
      and current_user = "''alice''" and H = id and now = 7 and upload_offset = 0
      and body = "''ab''"
      and sa = example_receiving and uid_a = 5
      and upload_a = "example_upload\<lparr>offset := 2, status := RECEIVING, updated_at := 7\<rparr>"
      and owner = "''alice''" and user_a = "''bob''" and now_a = 8 and off_a = 2
      and body_a = "''cd''"
      and sb = example_receiving and uid_b = 5
      and upload_b = "example_upload\<lparr>offset := 2, status := RECEIVING, updated_at := 7\<rparr>"
      and user_b = "''alice''"
      and st = example_tus and tus_id = "''beef''" and tus_user = "''alice''"
      and tus_offset = 0 and content_type = "''application/offset+octet-stream''"
      and chunks = "[''ab'']"
      and ta = example_tus and tid_a = "''f00d''" and content = "''ab''" and upload_len = 4
      and meta = "[]" and any_user = "''alice''"]
  by (simp add: example_server_def example_upload_def example_receiving_def example_tus_def
      upload_owner_def head_upload_def patch_upload_def tus_check_offset_def
      tus_upload_chunk_def)

text \<open>
  C7 as stated fails for the TUS handler: a caller who is not the owner of the session is
  answered. The upload that \<open>alice\<close> created is queried by \<open>bob\<close>, who receives its offset
  and declared length.
\<close>

theorem tus_offset_shown_to_other_user:
  "tus_create_upload id example_tus_empty ''http://host/tus/files/'' ''alice'' 4 None =
     (Inr \<lparr>code = 201, hdr_upload_offset = Some 0, hdr_upload_length = None,
           hdr_location = Some ''http://host/tus/files/alice-4-None''\<rparr>,
      \<lparr>tus_files = [''alice-4-None'' \<mapsto> []], tus_metadata = [''alice-4-None'' \<mapsto> (4, [])]\<rparr>) \<and>
   ''bob'' \<noteq> ''alice'' \<and>
   tus_check_offset
     \<lparr>tus_files = [''alice-4-None'' \<mapsto> []], tus_metadata = [''alice-4-None'' \<mapsto> (4, [])]\<rparr>
     ''alice-4-None'' ''bob'' =
     Inr \<lparr>code = 200, hdr_upload_offset = Some 0, hdr_upload_length = Some 4,
          hdr_location = None\<rparr>"
  by (simp add: example_tus_empty_def tus_create_upload_def tus_check_offset_def
      MAX_FILE_SIZE_def truthy_def rstrip_slash_def example_upload_id Let_def)

end
